theory Spec2Isabelle
  imports Complex_Main "HOL-Library.Multiset"
begin

section \<open>Python values of \<open>lambda_function.py\<close>\<close>

text \<open>
  Exceptions are values. Every \<open>try\<close>/\<open>except Exception\<close> of the source catches all of
  them, so one datatype is enough; \<open>StoreError\<close> stands for whatever the store client
  raises when a request to the backing store fails.
\<close>

datatype exn =
    IndexError
  | ValueError
  | TypeError
  | StopIteration
  | KeyError string
  | NameError string
  | UnboundLocalError string
  | OverflowError
  | StoreError

text \<open>
  The four shapes a function of the module returns: the dictionaries
  \<open>{"eventID": id}\<close>, \<open>{"error": text + str(e)}\<close>, \<open>{"message": text}\<close>, and the
  one-element set \<open>{"error: " + str(e)}\<close> that the outer handler of \<open>rsvp\<close> builds
  (braces around a single string make a set, not a dictionary).
\<close>

datatype response =
    EventID_dict string
  | Error_dict string "exn option"
  | Message_dict string
  | Error_set exn

subsection \<open>Strings\<close>

text \<open>
  A \<open>string\<close> is a list of 8-bit characters, read as code points below 256.
  \<open>str.split()\<close> without arguments cuts at runs of white space and drops empty
  pieces; the white-space code points below 256 are those of \<open>str.isspace\<close>.
\<close>

definition py_isspace :: "char \<Rightarrow> bool" where
  "py_isspace c =
     ((of_char c :: nat) \<in> set [9, 10, 11, 12, 13, 28, 29, 30, 31, 32, 133, 160])"

fun split_from :: "string \<Rightarrow> string \<Rightarrow> string list" where
  "split_from cur [] = (if cur = [] then [] else [cur])"
| "split_from cur (c # cs) =
     (if py_isspace c
      then (if cur = [] then split_from [] cs else cur # split_from [] cs)
      else split_from (cur @ [c]) cs)"

definition py_split :: "string \<Rightarrow> string list" where
  "py_split s = split_from [] s"

text \<open>\<open>s.lstrip(chars)\<close> removes the leading characters that occur in \<open>chars\<close>.\<close>

definition lstrip :: "string \<Rightarrow> string \<Rightarrow> string" where
  "lstrip chars s = dropWhile (\<lambda>c. c \<in> set chars) s"

text \<open>\<open>s[i]\<close> for \<open>i \<ge> 0\<close>: a string of one character, or IndexError.\<close>

definition py_index :: "string \<Rightarrow> nat \<Rightarrow> exn + string" where
  "py_index s i = (if i < length s then Inr [s ! i] else Inl IndexError)"

text \<open>Truth value of a string: the empty string is false.\<close>

definition truthy :: "string \<Rightarrow> bool" where
  "truthy s = (s \<noteq> [])"

text \<open>
  \<open>a and b and ...\<close> evaluates its operands from the left and stops at the first false
  one; an operand that raises does so only when it is reached.
\<close>

fun py_and :: "(exn + bool) list \<Rightarrow> exn + bool" where
  "py_and [] = Inr True"
| "py_and (Inl e # rest) = Inl e"
| "py_and (Inr False # rest) = Inr False"
| "py_and (Inr True # rest) = py_and rest"

subsection \<open>Dates and times\<close>

text \<open>
  A naive \<open>datetime\<close> is the number of microseconds since 0001-01-01T00:00:00, so
  comparison is \<open>\<le>\<close> on integers and adding a \<open>timedelta\<close> is addition. The calendar
  follows the library's proleptic Gregorian rules (its tables of days per month and
  its conversion between a day number and year, month, day). The timestamps of a
  table are all of one kind (naive, as \<open>parse_datetime\<close> writes them), so comparing
  two of them never raises. The library's datetimes run from 0001-01-01T00:00:00
  to 9999-12-31T23:59:59.999999; adding a \<open>timedelta\<close> that leaves this range raises
  OverflowError.
\<close>

type_synonym datetime = int

definition timedelta_minutes :: "int \<Rightarrow> int" where
  "timedelta_minutes n = n * 60000000"

definition datetime_max :: datetime where
  "datetime_max = 315537897599999999"

definition is_datetime :: "int \<Rightarrow> bool" where
  "is_datetime t = (0 \<le> t \<and> t \<le> datetime_max)"

definition datetime_add :: "datetime \<Rightarrow> int \<Rightarrow> exn + datetime" where
  "datetime_add t delta =
     (if is_datetime (t + delta) then Inr (t + delta) else Inl OverflowError)"

definition is_leap :: "nat \<Rightarrow> bool" where
  "is_leap y = (y mod 4 = 0 \<and> (y mod 100 \<noteq> 0 \<or> y mod 400 = 0))"

definition days_in_month :: "bool \<Rightarrow> nat \<Rightarrow> nat" where
  "days_in_month leap m =
     (if m = 2 \<and> leap then 29
      else [0, 31, 28, 31, 30, 31, 30, 31, 31, 30, 31, 30, 31] ! m)"

definition days_before_month :: "bool \<Rightarrow> nat \<Rightarrow> nat" where
  "days_before_month leap m =
     [0, 0, 31, 59, 90, 120, 151, 181, 212, 243, 273, 304, 334] ! m
       + (if m > 2 \<and> leap then 1 else 0)"

definition days_before_year :: "nat \<Rightarrow> nat" where
  "days_before_year y =
     (y - 1) * 365 + (y - 1) div 4 - (y - 1) div 100 + (y - 1) div 400"

definition ymd2ord :: "nat \<Rightarrow> nat \<Rightarrow> nat \<Rightarrow> nat" where
  "ymd2ord y m d = days_before_year y + days_before_month (is_leap y) m + d"

definition ord2ymd :: "nat \<Rightarrow> nat \<times> nat \<times> nat" where
  "ord2ymd n =
     (let n0 = n - 1;
          n400 = n0 div 146097; r400 = n0 mod 146097;
          n100 = r400 div 36524; r100 = r400 mod 36524;
          n4 = r100 div 1461; r4 = r100 mod 1461;
          n1 = r4 div 365; r1 = r4 mod 365;
          year = n400 * 400 + 1 + n100 * 100 + n4 * 4 + n1
      in if n1 = 4 \<or> n100 = 4 then (year - 1, 12, 31)
         else
           (let leapyear = (n1 = 3 \<and> (n4 \<noteq> 24 \<or> n100 = 3));
                month = (r1 + 50) div 32;
                month' = (if days_before_month leapyear month > r1 then month - 1 else month)
            in (year, month', r1 - days_before_month leapyear month' + 1)))"

definition datetime_of :: "nat \<Rightarrow> nat \<Rightarrow> nat \<Rightarrow> nat \<Rightarrow> nat \<Rightarrow> nat \<Rightarrow> datetime" where
  "datetime_of y m d hh mm ss =
     int ((((ymd2ord y m d - 1) * 24 + hh) * 60 + mm) * 60 + ss) * 1000000"

definition digit_char :: "nat \<Rightarrow> char" where
  "digit_char n = ''0123456789'' ! (n mod 10)"

definition zfill2 :: "nat \<Rightarrow> string" where
  "zfill2 n = [digit_char (n div 10), digit_char n]"

definition zfill4 :: "nat \<Rightarrow> string" where
  "zfill4 n = zfill2 (n div 100) @ zfill2 (n mod 100)"

definition zfill6 :: "nat \<Rightarrow> string" where
  "zfill6 n = zfill2 (n div 10000) @ zfill4 (n mod 10000)"

text \<open>\<open>datetime.isoformat()\<close>: \<open>YYYY-MM-DDTHH:MM:SS\<close>, then \<open>.ffffff\<close> when the
  microseconds are not zero.\<close>

definition isoformat :: "datetime \<Rightarrow> string" where
  "isoformat t =
     (let us = nat t mod 1000000; s = nat t div 1000000;
          ymd = ord2ymd (s div 86400 + 1)
      in zfill4 (fst ymd) @ ''-'' @ zfill2 (fst (snd ymd)) @ ''-'' @ zfill2 (snd (snd ymd))
           @ ''T'' @ zfill2 (s div 3600 mod 24) @ '':'' @ zfill2 (s div 60 mod 60)
           @ '':'' @ zfill2 (s mod 60)
           @ (if us = 0 then [] else ''.'' @ zfill6 us))"

subsection \<open>\<open>datetime.strptime\<close> with the format of \<open>parse_datetime\<close>\<close>

text \<open>
  \<open>strptime\<close> turns the format into a regular expression, matches it at the start of
  the text and refuses text that is left over. For \<open>%y-%m-%d:%H-%M\<close> the expression
  is a sequence of items, each an ordered choice between sequences of character
  classes; the matcher below tries the choices in order and backtracks, as the
  regular-expression engine does.
\<close>

type_synonym char_class = string

fun match_alt :: "char_class list \<Rightarrow> string \<Rightarrow> (string \<times> string) option" where
  "match_alt [] s = Some ([], s)"
| "match_alt (k # ks) [] = None"
| "match_alt (k # ks) (c # cs) =
     (if c \<in> set k
      then (case match_alt ks cs of None \<Rightarrow> None | Some (txt, r) \<Rightarrow> Some (c # txt, r))
      else None)"

fun match_items :: "char_class list list list \<Rightarrow> string \<Rightarrow> (string list \<times> string) option"
and try_alts ::
  "char_class list list \<Rightarrow> char_class list list list \<Rightarrow> string \<Rightarrow> (string list \<times> string) option"
where
  "match_items [] s = Some ([], s)"
| "match_items (alts # items) s = try_alts alts items s"
| "try_alts [] items s = None"
| "try_alts (a # alts) items s =
     (case match_alt a s of
        None \<Rightarrow> try_alts alts items s
      | Some (txt, r) \<Rightarrow>
          (case match_items items r of
             None \<Rightarrow> try_alts alts items s
           | Some (groups, r') \<Rightarrow> Some (txt # groups, r')))"

definition digits :: char_class where
  "digits = ''0123456789''"

definition nonzero :: char_class where
  "nonzero = ''123456789''"

text \<open>
  \<open>%y\<close> is \<open>\d\d\<close>; \<open>%m\<close> is \<open>1[0-2]|0[1-9]|[1-9]\<close>; \<open>%d\<close> is
  \<open>3[0-1]|[1-2]\d|0[1-9]|[1-9]| [1-9]\<close>; \<open>%H\<close> is \<open>2[0-3]|[0-1]\d|\d\<close>; \<open>%M\<close> is
  \<open>[0-5]\d|\d\<close>; the other characters of the format stand for themselves.
\<close>

definition format_regex :: "char_class list list list" where
  "format_regex =
     [ [[digits, digits]],
       [[''-'']],
       [[''1'', ''012''], [''0'', nonzero], [nonzero]],
       [[''-'']],
       [[''3'', ''01''], [''12'', digits], [''0'', nonzero], [nonzero], ['' '', nonzero]],
       [['':'']],
       [[''2'', ''0123''], [''01'', digits], [digits]],
       [[''-'']],
       [[''012345'', digits], [digits]] ]"

text \<open>\<open>int(text)\<close> on a matched group: decimal digits, a leading blank ignored.\<close>

definition py_int :: "string \<Rightarrow> nat" where
  "py_int txt =
     foldl (\<lambda>n c. 10 * n + (of_char c - 48)) 0 (filter (\<lambda>c. c \<noteq> CHR '' '') txt)"

text \<open>
  A two-digit year up to 68 is in the 2000s, a later one in the 1900s. A day the
  month does not have makes the date constructor raise ValueError.
\<close>

definition strptime :: "string \<Rightarrow> exn + datetime" where
  "strptime data_string =
     (case match_items format_regex data_string of
        None \<Rightarrow> Inl ValueError
      | Some (groups, rest) \<Rightarrow>
          if rest \<noteq> [] then Inl ValueError
          else
            (let y = py_int (groups ! 0);
                 year = (if y \<le> 68 then y + 2000 else y + 1900);
                 month = py_int (groups ! 2);
                 day = py_int (groups ! 4);
                 hour = py_int (groups ! 6);
                 minute = py_int (groups ! 8)
             in if day > days_in_month (is_leap year) month then Inl ValueError
                else Inr (datetime_of year month day hour minute 0)))"

definition parse_datetime :: "string \<Rightarrow> exn + string" where
  "parse_datetime dt_string =
     (case strptime (lstrip ''start:'' dt_string) of
        Inl e \<Rightarrow> Inl e
      | Inr dt \<Rightarrow> Inr (isoformat dt))"

section \<open>The record store\<close>

text \<open>
  The store is reached through a client library; the module uses an insert into
  \<open>events\<close>, an insert into \<open>availabilities\<close>, a select on \<open>availabilities\<close> by
  \<open>eventID\<close> and an update of \<open>confirmedTime\<close> on the rows of \<open>events\<close> with a given
  \<open>eventID\<close>. The model keeps the two tables as lists of rows. \<open>store_up\<close> tells
  whether the store answers; when it does not, every request raises.
\<close>

record event_row =
  eventID :: string
  groupID :: string
  period :: string
  description :: string
  confirmedTime :: "string option"

record 't avail_row =
  userID :: string
  availEventID :: string
  startTime :: 't
  endTime :: 't

record db =
  events :: "event_row list"
  availabilities :: "string avail_row list"
  store_up :: bool

text \<open>
  What the module takes from outside and the source does not fix: the key the store
  generates for a new event, and \<open>datetime.fromisoformat\<close>, whose accepted texts
  depend on the version of the library.
\<close>

record extern =
  new_event_id :: "event_row list \<Rightarrow> string"
  fromisoformat :: "string \<Rightarrow> exn + datetime"

definition insert_event :: "extern \<Rightarrow> db \<Rightarrow> string \<Rightarrow> string \<Rightarrow> string \<Rightarrow> exn + event_row \<times> db" where
  "insert_event X d g p t =
     (if \<not> store_up d then Inl StoreError
      else
        (let row = \<lparr>eventID = new_event_id X (events d), groupID = g, period = p,
                     description = t, confirmedTime = None\<rparr>
         in Inr (row, d\<lparr>events := events d @ [row]\<rparr>)))"

definition insert_availability :: "db \<Rightarrow> string avail_row \<Rightarrow> exn + db" where
  "insert_availability d row =
     (if \<not> store_up d then Inl StoreError
      else Inr (d\<lparr>availabilities := availabilities d @ [row]\<rparr>))"

definition select_availabilities :: "db \<Rightarrow> string \<Rightarrow> exn + string avail_row list" where
  "select_availabilities d event_id =
     (if \<not> store_up d then Inl StoreError
      else Inr (filter (\<lambda>row. availEventID row = event_id) (availabilities d)))"

definition update_confirmedTime :: "db \<Rightarrow> string \<Rightarrow> string \<Rightarrow> exn + db" where
  "update_confirmedTime d event_id confirmed_time =
     (if \<not> store_up d then Inl StoreError
      else Inr (d\<lparr>events :=
                   map (\<lambda>row. if eventID row = event_id
                              then row\<lparr>confirmedTime := Some confirmed_time\<rparr> else row)
                       (events d)\<rparr>))"

section \<open>The functions of \<open>lambda_function.py\<close>\<close>

subsection \<open>\<open>create_event\<close>\<close>

definition create_event :: "extern \<Rightarrow> db \<Rightarrow> string \<Rightarrow> string \<Rightarrow> string \<Rightarrow> response \<times> db" where
  "create_event X d group_id period' description' =
     (case insert_event X d group_id period' description' of
        Inl e \<Rightarrow> (Error_dict [] (Some e), d)
      | Inr (row, d') \<Rightarrow> (EventID_dict (eventID row), d'))"

subsection \<open>\<open>rsvp\<close>\<close>

text \<open>
  The loop \<open>for i in range(len(availiable_time.split()), 2)\<close> with its inner
  \<open>try\<close>: each round indexes the raw string (not the list of tokens) at \<open>i\<close> and
  \<open>i + 1\<close> and parses the two characters; the first exception ends the function.
  The third argument carries \<open>start_time\<close> and \<open>end_time\<close>, unbound (\<open>None\<close>) until a
  round has assigned them.
\<close>

fun rsvp_loop :: "string \<Rightarrow> nat list \<Rightarrow> (string \<times> string) option \<Rightarrow> exn + (string \<times> string) option" where
  "rsvp_loop availiable_time [] bound = Inr bound"
| "rsvp_loop availiable_time (i # rng) bound =
     (case py_index availiable_time i of
        Inl e \<Rightarrow> Inl e
      | Inr c1 \<Rightarrow>
          (case parse_datetime c1 of
             Inl e \<Rightarrow> Inl e
           | Inr start_time \<Rightarrow>
               (case py_index availiable_time (i + 1) of
                  Inl e \<Rightarrow> Inl e
                | Inr c2 \<Rightarrow>
                    (case parse_datetime c2 of
                       Inl e \<Rightarrow> Inl e
                     | Inr end_time \<Rightarrow>
                         rsvp_loop availiable_time rng (Some (start_time, end_time))))))"

text \<open>
  After the loop the single insert reads \<open>start_time\<close> and \<open>end_time\<close>; reading an
  unbound local raises UnboundLocalError, which the outer handler turns into the
  one-element set.
\<close>

definition rsvp :: "db \<Rightarrow> string \<Rightarrow> string \<Rightarrow> string \<Rightarrow> response \<times> db" where
  "rsvp d user_id event_id availiable_time =
     (case rsvp_loop availiable_time [length (py_split availiable_time) ..< 2] None of
        Inl e \<Rightarrow> (Error_dict ''Malformed available time data!'' (Some e), d)
      | Inr None \<Rightarrow> (Error_set (UnboundLocalError ''start_time''), d)
      | Inr (Some (start_time, end_time)) \<Rightarrow>
          (case insert_availability d
                  \<lparr>userID = user_id, availEventID = event_id,
                   startTime = start_time, endTime = end_time\<rparr> of
             Inl e \<Rightarrow> (Error_set e, d)
           | Inr d' \<Rightarrow> (Message_dict ''Availability recorded successfully'', d')))"

subsection \<open>\<open>select_time\<close>\<close>

text \<open>The loop that replaces the two texts of every row by datetimes.\<close>

fun convert_times :: "extern \<Rightarrow> string avail_row list \<Rightarrow> exn + datetime avail_row list" where
  "convert_times X [] = Inr []"
| "convert_times X (avail # rest) =
     (case fromisoformat X (startTime avail) of
        Inl e \<Rightarrow> Inl e
      | Inr s \<Rightarrow>
          (case fromisoformat X (endTime avail) of
             Inl e \<Rightarrow> Inl e
           | Inr t \<Rightarrow>
               (case convert_times X rest of
                  Inl e \<Rightarrow> Inl e
                | Inr rest' \<Rightarrow>
                    Inr (\<lparr>userID = userID avail, availEventID = availEventID avail,
                          startTime = s, endTime = t\<rparr> # rest'))))"

text \<open>\<open>min\<close> and \<open>max\<close> of a sequence; both raise ValueError on an empty one.\<close>

fun py_min :: "int list \<Rightarrow> exn + int" where
  "py_min [] = Inl ValueError"
| "py_min (x # xs) = Inr (fold min xs x)"

fun py_max :: "int list \<Rightarrow> exn + int" where
  "py_max [] = Inl ValueError"
| "py_max (x # xs) = Inr (fold max xs x)"

text \<open>
  \<open>max(items, key=f)\<close> keeps the first item and replaces it only by an item whose
  key is strictly greater, so of several items with the greatest key the first one
  is returned.
\<close>

fun py_max_key :: "('a \<Rightarrow> nat) \<Rightarrow> 'a list \<Rightarrow> exn + 'a" where
  "py_max_key f [] = Inl ValueError"
| "py_max_key f (x # xs) = Inr (fold (\<lambda>y best. if f y > f best then y else best) xs x)"

type_synonym slot = "datetime \<times> datetime"

text \<open>
  The \<open>while\<close> loop that lists the 30-minute slots. Each round adds 30 minutes to
  \<open>current_time\<close>; when the sum is past the last datetime the addition raises and
  the loop ends with that exception.
\<close>

function slots_loop :: "datetime \<Rightarrow> datetime \<Rightarrow> slot list \<Rightarrow> exn + slot list" where
  "slots_loop current_time end_time slots =
     (if current_time < end_time
      then (case datetime_add current_time (timedelta_minutes 30) of
              Inl e \<Rightarrow> Inl e
            | Inr next_time \<Rightarrow>
                slots_loop next_time end_time (slots @ [(current_time, next_time)]))
      else Inr slots)"
  by pat_completeness auto
termination
  by (relation "measure (\<lambda>(c, e, s). nat (e - c))")
     (auto simp: datetime_add_def timedelta_minutes_def split: if_splits)

declare slots_loop.simps [simp del]

text \<open>The key of the \<open>max\<close>: \<open>sum(1 for avail in availabilities if ...)\<close>.\<close>

definition coverage :: "datetime avail_row list \<Rightarrow> slot \<Rightarrow> nat" where
  "coverage avs slot =
     sum_list (map (\<lambda>avail. 1)
       (filter (\<lambda>avail. startTime avail \<le> fst slot \<and> endTime avail \<ge> snd slot) avs))"

text \<open>
  Lines 111 to 130 of the source, on the converted rows: the overall start and end,
  the slots, and the best slot.
\<close>

definition all_slots :: "datetime avail_row list \<Rightarrow> exn + slot list" where
  "all_slots avs =
     (case py_min (map startTime avs) of
        Inl e \<Rightarrow> Inl e
      | Inr start_time \<Rightarrow>
          (case py_max (map endTime avs) of
             Inl e \<Rightarrow> Inl e
           | Inr end_time \<Rightarrow> slots_loop start_time end_time []))"

definition best_slot :: "datetime avail_row list \<Rightarrow> exn + slot" where
  "best_slot avs =
     (case all_slots avs of
        Inl e \<Rightarrow> Inl e
      | Inr slots \<Rightarrow> py_max_key (coverage avs) slots)"

text \<open>
  \<open>select_time\<close>: every exception inside is caught, printed and answered with
  \<open>None\<close>; the result is the start of the best slot as ISO text.
\<close>

definition select_time :: "extern \<Rightarrow> db \<Rightarrow> string \<Rightarrow> string option" where
  "select_time X d event_id =
     (case select_availabilities d event_id of
        Inl e \<Rightarrow> None
      | Inr rows \<Rightarrow>
          if rows = [] then None
          else
            (case convert_times X rows of
               Inl e \<Rightarrow> None
             | Inr avs \<Rightarrow>
                 (case best_slot avs of
                    Inl e \<Rightarrow> None
                  | Inr best \<Rightarrow> Some (isoformat (fst best)))))"

subsection \<open>\<open>update_event_time\<close> and \<open>find_best_time\<close>\<close>

definition update_event_time :: "db \<Rightarrow> string \<Rightarrow> string \<Rightarrow> response \<times> db" where
  "update_event_time d event_id confirmed_time =
     (case update_confirmedTime d event_id confirmed_time of
        Inl e \<Rightarrow> (Error_dict [] (Some e), d)
      | Inr d' \<Rightarrow> (Message_dict ''Event time updated successfully'', d'))"

definition find_best_time :: "extern \<Rightarrow> db \<Rightarrow> string \<Rightarrow> response \<times> db" where
  "find_best_time X d event_id =
     (case select_time X d event_id of
        None \<Rightarrow> (Error_dict ''Unable to find a suitable time'' None, d)
      | Some best_time \<Rightarrow>
          if truthy best_time then update_event_time d event_id best_time
          else (Error_dict ''Unable to find a suitable time'' None, d))"

subsection \<open>\<open>get_named_parameter\<close> and \<open>lambda_handler\<close>\<close>

text \<open>
  The invocation event: \<open>actionGroup\<close> and \<open>function\<close> are read with a default,
  \<open>parameters\<close> and \<open>messageVersion\<close> are subscripted and raise KeyError when they
  are missing. A parameter is a pair of its name and its value.
\<close>

record lambda_event =
  ev_actionGroup :: "string option"
  ev_function :: "string option"
  ev_parameters :: "(string \<times> string) list option"
  ev_messageVersion :: "string option"

text \<open>\<open>next(...)\<close> on the generator of matching items: the first one, or StopIteration.\<close>

definition get_named_parameter :: "lambda_event \<Rightarrow> string \<Rightarrow> exn + string" where
  "get_named_parameter event name =
     (case ev_parameters event of
        None \<Rightarrow> Inl (KeyError ''parameters'')
      | Some items \<Rightarrow>
          (case filter (\<lambda>item. fst item = name) items of
             [] \<Rightarrow> Inl StopIteration
           | item # rest \<Rightarrow> Inr (snd item)))"

text \<open>
  The text of a response body is either \<open>json.dumps(response)\<close> or a fixed text.
  \<open>json.dumps\<close> raises TypeError on a set.
\<close>

datatype body = Dumps response | Text string

definition json_dumps :: "response \<Rightarrow> exn + body" where
  "json_dumps r = (case r of Error_set e \<Rightarrow> Inl TypeError | _ \<Rightarrow> Inr (Dumps r))"

record function_response =
  resp_actionGroup :: string
  resp_function :: string
  responseBody :: body
  messageVersion :: string

text \<open>
  The three branches of the dispatch. In the \<open>rsvp\<close> branch the condition reads
  \<open>start_time\<close> and \<open>end_time\<close>, which are bound neither in \<open>lambda_handler\<close> nor at
  module level nor among the builtins: reaching either raises NameError.
\<close>

definition create_event_branch :: "extern \<Rightarrow> db \<Rightarrow> lambda_event \<Rightarrow> (exn + body) \<times> db" where
  "create_event_branch X d event =
     (case get_named_parameter event ''group_id'' of
        Inl e \<Rightarrow> (Inl e, d)
      | Inr group_id \<Rightarrow>
     (case get_named_parameter event ''period'' of
        Inl e \<Rightarrow> (Inl e, d)
      | Inr period' \<Rightarrow>
     (case get_named_parameter event ''description'' of
        Inl e \<Rightarrow> (Inl e, d)
      | Inr description' \<Rightarrow>
          (case py_and [Inr (truthy group_id), Inr (truthy period'), Inr (truthy description')] of
             Inl e \<Rightarrow> (Inl e, d)
           | Inr True \<Rightarrow>
               (case create_event X d group_id period' description' of
                  (response, d') \<Rightarrow> (json_dumps response, d'))
           | Inr False \<Rightarrow> (Inr (Text ''Missing required parameters''), d)))))"

definition rsvp_branch :: "db \<Rightarrow> lambda_event \<Rightarrow> (exn + body) \<times> db" where
  "rsvp_branch d event =
     (case get_named_parameter event ''user_id'' of
        Inl e \<Rightarrow> (Inl e, d)
      | Inr user_id \<Rightarrow>
     (case get_named_parameter event ''event_id'' of
        Inl e \<Rightarrow> (Inl e, d)
      | Inr event_id \<Rightarrow>
     (case get_named_parameter event ''availiable_time'' of
        Inl e \<Rightarrow> (Inl e, d)
      | Inr availiable_time \<Rightarrow>
          (case py_and [Inr (truthy user_id), Inr (truthy event_id),
                        Inl (NameError ''start_time''), Inl (NameError ''end_time'')] of
             Inl e \<Rightarrow> (Inl e, d)
           | Inr True \<Rightarrow>
               (case rsvp d user_id event_id availiable_time of
                  (response, d') \<Rightarrow> (json_dumps response, d'))
           | Inr False \<Rightarrow> (Inr (Text ''Missing required parameters''), d)))))"

definition find_best_time_branch :: "extern \<Rightarrow> db \<Rightarrow> lambda_event \<Rightarrow> (exn + body) \<times> db" where
  "find_best_time_branch X d event =
     (case get_named_parameter event ''event_id'' of
        Inl e \<Rightarrow> (Inl e, d)
      | Inr event_id \<Rightarrow>
          if truthy event_id
          then (case find_best_time X d event_id of
                  (response, d') \<Rightarrow> (json_dumps response, d'))
          else (Inr (Text ''Missing event_id parameter''), d))"

text \<open>
  \<open>lambda_handler\<close>: an exception that leaves it is the left summand; the store is
  returned as the branch left it.
\<close>

definition lambda_handler :: "extern \<Rightarrow> db \<Rightarrow> lambda_event \<Rightarrow> (exn + function_response) \<times> db" where
  "lambda_handler X d event =
     (let action_group = (case ev_actionGroup event of None \<Rightarrow> [] | Some a \<Rightarrow> a);
          function' = (case ev_function event of None \<Rightarrow> [] | Some f \<Rightarrow> f)
      in
        (case (if function' = ''create_event'' then create_event_branch X d event
               else if function' = ''rsvp'' then rsvp_branch d event
               else if function' = ''find_best_time`'' then find_best_time_branch X d event
               else (Inr (Text ''Invalid function''), d)) of
           (Inl e, d') \<Rightarrow> (Inl e, d')
         | (Inr response_body, d') \<Rightarrow>
             (case ev_messageVersion event of
                None \<Rightarrow> (Inl (KeyError ''messageVersion''), d')
              | Some v \<Rightarrow>
                  (Inr \<lparr>resp_actionGroup = action_group, resp_function = function',
                        responseBody = response_body, messageVersion = v\<rparr>, d'))))"

section \<open>An instance of the outside for the examples\<close>

text \<open>
  The examples read the timestamp texts \<open>YYYY-MM-DDTHH:MM:SS\<close>, the form that
  \<open>isoformat\<close> writes for whole seconds and that every version of
  \<open>datetime.fromisoformat\<close> reads; and they number the events.
\<close>

definition iso_regex :: "char_class list list list" where
  "iso_regex =
     [ [[digits, digits, digits, digits]], [[''-'']], [[digits, digits]], [[''-'']],
       [[digits, digits]], [[''T'']], [[digits, digits]], [['':'']], [[digits, digits]],
       [['':'']], [[digits, digits]] ]"

definition fromisoformat_seconds :: "string \<Rightarrow> exn + datetime" where
  "fromisoformat_seconds s =
     (case match_items iso_regex s of
        None \<Rightarrow> Inl ValueError
      | Some (groups, rest) \<Rightarrow>
          if rest \<noteq> [] then Inl ValueError
          else
            (let year = py_int (groups ! 0); month = py_int (groups ! 2);
                 day = py_int (groups ! 4); hour = py_int (groups ! 6);
                 minute = py_int (groups ! 8); second = py_int (groups ! 10)
             in if year = 0 \<or> month = 0 \<or> month > 12 \<or> day = 0
                   \<or> day > days_in_month (is_leap year) month
                   \<or> hour > 23 \<or> minute > 59 \<or> second > 59
                then Inl ValueError
                else Inr (datetime_of year month day hour minute second)))"

definition example_extern :: extern where
  "example_extern =
     \<lparr>new_event_id = (\<lambda>rows. zfill4 (length rows)), fromisoformat = fromisoformat_seconds\<rparr>"

text \<open>
  The store of the examples: one event, and the windows of three participants on
  2024-01-01 (A 09:00 to 10:00, B 09:30 to 10:30, C 09:00 to 09:30).
\<close>

definition example_db :: db where
  "example_db =
     \<lparr>events = [\<lparr>eventID = ''e1'', groupID = ''g1'', period = ''2024-01-01'',
                  description = ''standup'', confirmedTime = None\<rparr>],
      availabilities =
        [\<lparr>userID = ''A'', availEventID = ''e1'',
          startTime = ''2024-01-01T09:00:00'', endTime = ''2024-01-01T10:00:00''\<rparr>,
         \<lparr>userID = ''B'', availEventID = ''e1'',
          startTime = ''2024-01-01T09:30:00'', endTime = ''2024-01-01T10:30:00''\<rparr>,
         \<lparr>userID = ''C'', availEventID = ''e1'',
          startTime = ''2024-01-01T09:00:00'', endTime = ''2024-01-01T09:30:00''\<rparr>],
      store_up = True\<rparr>"

definition example_event :: "string \<Rightarrow> (string \<times> string) list \<Rightarrow> lambda_event" where
  "example_event f ps =
     \<lparr>ev_actionGroup = Some ''scheduler'', ev_function = Some f,
      ev_parameters = Some ps, ev_messageVersion = Some ''1.0''\<rparr>"

text \<open>The windows of the example store as \<open>select_time\<close> has them after conversion.\<close>

definition example_windows :: "datetime avail_row list" where
  "example_windows =
     [\<lparr>userID = ''A'', availEventID = ''e1'',
       startTime = 63839696400000000, endTime = 63839700000000000\<rparr>,
      \<lparr>userID = ''B'', availEventID = ''e1'',
       startTime = 63839698200000000, endTime = 63839701800000000\<rparr>,
      \<lparr>userID = ''C'', availEventID = ''e1'',
       startTime = 63839696400000000, endTime = 63839698200000000\<rparr>]"

text \<open>One window in the last hour of the last day: 9999-12-31, 23:00 to 23:59.\<close>

definition last_hour_window :: "datetime avail_row list" where
  "last_hour_window =
     [\<lparr>userID = ''A'', availEventID = ''e1'',
       startTime = 315537894000000000, endTime = 315537897540000000\<rparr>]"

definition last_hour_db :: db where
  "last_hour_db =
     example_db\<lparr>availabilities :=
       [\<lparr>userID = ''A'', availEventID = ''e1'',
         startTime = ''9999-12-31T23:00:00'', endTime = ''9999-12-31T23:59:00''\<rparr>]\<rparr>"

text \<open>The example store with the event already confirmed at the time \<open>t\<close>.\<close>

definition example_db_confirmed :: "string \<Rightarrow> db" where
  "example_db_confirmed t =
     example_db\<lparr>events := [\<lparr>eventID = ''e1'', groupID = ''g1'', period = ''2024-01-01'',
                  description = ''standup'', confirmedTime = Some t\<rparr>]\<rparr>"

section \<open>The slot sequence in the words of the specification\<close>

text \<open>
  Section 4.3 of the specification: \<open>globalStart\<close> is the least window start,
  \<open>globalEnd\<close> the greatest window end, the width \<open>W\<close> is 30 minutes, slot \<open>k\<close> is
  \<open>[globalStart + k W, globalStart + (k + 1) W)\<close>, and there are
  \<open>ceil((globalEnd - globalStart) / W)\<close> slots. These definitions follow the
  specification, not the source; \<open>all_slots\<close> above is the source.
\<close>

definition spec_globalStart :: "datetime avail_row list \<Rightarrow> datetime" where
  "spec_globalStart avs = Min (startTime ` set avs)"

definition spec_globalEnd :: "datetime avail_row list \<Rightarrow> datetime" where
  "spec_globalEnd avs = Max (endTime ` set avs)"

definition spec_slot_count :: "datetime avail_row list \<Rightarrow> nat" where
  "spec_slot_count avs =
     nat \<lceil>real_of_int (spec_globalEnd avs - spec_globalStart avs)
            / real_of_int (timedelta_minutes 30)\<rceil>"

definition spec_slot :: "datetime avail_row list \<Rightarrow> nat \<Rightarrow> slot" where
  "spec_slot avs k =
     (spec_globalStart avs + int k * timedelta_minutes 30,
      spec_globalStart avs + (int k + 1) * timedelta_minutes 30)"

section \<open>Parsing: what \<open>rsvp\<close> does with its text\<close>

text \<open>The format needs at least nine characters; a text of fewer than two fails at the year.\<close>

lemma match_short: "length s < 2 \<Longrightarrow> match_items format_regex s = None"
proof (cases s)
  case Nil
  then show ?thesis by (simp add: format_regex_def)
next
  case (Cons c cs)
  assume "length s < 2"
  with Cons have "cs = []" by simp
  with Cons show ?thesis by (simp add: format_regex_def)
qed

lemma strptime_short: "length s < 2 \<Longrightarrow> strptime s = Inl ValueError"
  by (simp add: strptime_def match_short)

lemma length_lstrip: "length (lstrip cs s) \<le> length s"
  by (simp add: lstrip_def length_dropWhile_le)

lemma parse_datetime_char: "parse_datetime [c] = Inl ValueError"
proof -
  have "length (lstrip ''start:'' [c]) < 2"
    using length_lstrip [of "''start:''" "[c]"] by simp
  then show ?thesis
    by (simp add: parse_datetime_def strptime_short)
qed

text \<open>A round of the loop never gets past its first character.\<close>

lemma rsvp_loop_fails:
  "rsvp_loop s (i # rng) b = Inl (if length s \<le> i then IndexError else ValueError)"
  by (simp add: py_index_def parse_datetime_char)

lemma rsvp_cases:
  "rsvp d user_id event_id s =
     (if 2 \<le> length (py_split s) then Error_set (UnboundLocalError ''start_time'')
      else Error_dict ''Malformed available time data!''
             (Some (if length s \<le> length (py_split s) then IndexError else ValueError)),
      d)"
proof (cases "2 \<le> length (py_split s)")
  case True
  then show ?thesis by (simp add: rsvp_def)
next
  case False
  then have "[length (py_split s) ..< 2] = length (py_split s) # [Suc (length (py_split s)) ..< 2]"
    by (simp add: upt_conv_Cons)
  with False show ?thesis
    by (simp add: rsvp_def rsvp_loop_fails del: rsvp_loop.simps)
qed

subsection \<open>Concrete dates\<close>

lemma zfill_ex:
  "zfill4 2024 = ''2024''" "zfill2 (Suc 0) = ''01''" "zfill2 9 = ''09''" "zfill2 0 = ''00''"
  by (simp_all add: zfill4_def zfill2_def digit_char_def)

lemma ord2ymd_ex: "ord2ymd 738886 = (2024, 1, 1)"
  by (simp add: ord2ymd_def Let_def days_before_month_def)

lemma isoformat_ex: "isoformat 63839696400000000 = ''2024-01-01T09:00:00''"
  by (simp add: isoformat_def ord2ymd_ex zfill_ex)

lemma datetime_of_ex:
  "datetime_of 2024 (Suc 0) (Suc 0) 9 0 0 = 63839696400000000"
  "datetime_of 2024 (Suc 0) (Suc 0) 9 30 0 = 63839698200000000"
  "datetime_of 2024 (Suc 0) (Suc 0) 10 0 0 = 63839700000000000"
  "datetime_of 2024 (Suc 0) (Suc 0) 10 30 0 = 63839701800000000"
  by (simp_all add: datetime_of_def ymd2ord_def days_before_year_def days_before_month_def
        is_leap_def)

lemma fromiso_ex:
  "fromisoformat_seconds ''2024-01-01T09:00:00'' = Inr 63839696400000000"
  "fromisoformat_seconds ''2024-01-01T09:30:00'' = Inr 63839698200000000"
  "fromisoformat_seconds ''2024-01-01T10:00:00'' = Inr 63839700000000000"
  "fromisoformat_seconds ''2024-01-01T10:30:00'' = Inr 63839701800000000"
  by (simp_all add: fromisoformat_seconds_def iso_regex_def digits_def py_int_def
        days_in_month_def is_leap_def datetime_of_ex)

text \<open>
  \<open>parse_datetime\<close> reads a start token. It cannot read an end token: \<open>lstrip\<close> removes
  only the characters of \<open>"start:"\<close>, so \<open>"end:"\<close> stays in front of the date.
\<close>

lemma parse_datetime_start:
  "parse_datetime ''start:24-01-01:09-00'' = Inr ''2024-01-01T09:00:00''"
  by (simp add: parse_datetime_def lstrip_def strptime_def format_regex_def digits_def
        nonzero_def py_int_def is_leap_def days_in_month_def datetime_of_ex isoformat_ex)

lemma parse_datetime_end: "parse_datetime ''end:24-01-01:10-00'' = Inl ValueError"
  by (simp add: parse_datetime_def lstrip_def strptime_def format_regex_def digits_def
        nonzero_def)

subsection \<open>The claims about \<open>rsvp\<close>\<close>

text \<open>
  Claim C9. For every input string \<open>rsvp\<close> leaves the store as it was and returns an
  error value. With two or more tokens \<open>range(len(tokens), 2)\<close> is empty, so
  \<open>start_time\<close> is unbound when the row is built and the outer handler returns the
  one-element error set. With fewer than two tokens the loop indexes the raw string
  at the token count; that is past the end (IndexError) or a single character, which
  never matches the date-time pattern (ValueError), and the inner handler returns
  the malformed-data error.
\<close>

theorem rsvp_never_records:
  "snd (rsvp d user_id event_id s) = d
   \<and> fst (rsvp d user_id event_id s) =
       (if 2 \<le> length (py_split s) then Error_set (UnboundLocalError ''start_time'')
        else Error_dict ''Malformed available time data!''
               (Some (if length s \<le> length (py_split s) then IndexError else ValueError)))"
  by (simp add: rsvp_cases)

text \<open>
  Claim C1. A submission of one well-formed pair should store one window. The code
  stores none: the text has two tokens, the loop does not run, and the insert fails
  on the unbound \<open>start_time\<close>.
\<close>

theorem rsvp_one_pair_not_stored:
  "rsvp d ''u1'' ''e1'' ''start:24-01-01:09-00 end:24-01-01:10-00'' =
     (Error_set (UnboundLocalError ''start_time''), d)"
  by (simp add: rsvp_def py_split_def py_isspace_def)

text \<open>Every text of two or more tokens, well formed or not, gets the same answer.\<close>

lemma rsvp_two_or_more:
  "2 \<le> length (py_split s) \<Longrightarrow>
     rsvp d user_id event_id s = (Error_set (UnboundLocalError ''start_time''), d)"
  by (simp add: rsvp_cases)

text \<open>
  Claim C7. A submission whose token count is not a positive even number, or with
  a payload that does not match the pattern, or with an end that is not after its
  start, should fail with the malformed-input error and store nothing. Nothing is
  stored, but the error is another one: a text of three tokens, a text whose second
  payload does not match the pattern, and a text whose end is before its start all
  get the error set of the unbound \<open>start_time\<close>. The inner handler with its message
  \<open>Malformed available time data!\<close> is what the code means to answer; the loop
  header keeps the loop from running.
\<close>

theorem rsvp_not_malformed_error:
  "length (py_split ''a b c'') = 3
   \<and> rsvp example_db ''u1'' ''e1'' ''a b c''
        = (Error_set (UnboundLocalError ''start_time''), example_db)
   \<and> rsvp example_db ''u1'' ''e1'' ''start:24-01-01:09-00 end:24-01-01:xx-00''
        = (Error_set (UnboundLocalError ''start_time''), example_db)
   \<and> rsvp example_db ''u1'' ''e1'' ''start:24-01-01:10-00 end:24-01-01:09-00''
        = (Error_set (UnboundLocalError ''start_time''), example_db)"
  by (simp add: rsvp_def py_split_def py_isspace_def)

section \<open>The request handler\<close>

lemma py_and_rsvp:
  "py_and [Inr a, Inr b, Inl e1, Inl e2] = (if a \<and> b then Inl e1 else Inr False)"
  by (cases a; cases b) simp_all

text \<open>The \<open>rsvp\<close> branch never reaches the call of \<open>rsvp\<close>.\<close>

lemma rsvp_branch_cases:
  "rsvp_branch d event =
     (case get_named_parameter event ''user_id'' of
        Inl e \<Rightarrow> (Inl e, d)
      | Inr user_id \<Rightarrow>
     (case get_named_parameter event ''event_id'' of
        Inl e \<Rightarrow> (Inl e, d)
      | Inr event_id \<Rightarrow>
     (case get_named_parameter event ''availiable_time'' of
        Inl e \<Rightarrow> (Inl e, d)
      | Inr availiable_time \<Rightarrow>
          if truthy user_id \<and> truthy event_id then (Inl (NameError ''start_time''), d)
          else (Inr (Text ''Missing required parameters''), d))))"
  by (simp add: rsvp_branch_def py_and_rsvp split: sum.splits)

text \<open>
  Claim C8. With all three parameters present and non-empty the handler should go
  on to record the availability. It raises NameError instead: the presence check
  reads \<open>start_time\<close>, which is not bound in that scope.
\<close>

theorem handler_rsvp_name_error:
  "lambda_handler X d
     (example_event ''rsvp''
        [(''user_id'', ''u1''), (''event_id'', ''e1''),
         (''availiable_time'', ''start:24-01-01:09-00 end:24-01-01:10-00'')]) =
     (Inl (NameError ''start_time''), d)"
  by (simp add: lambda_handler_def example_event_def rsvp_branch_cases
        get_named_parameter_def truthy_def)

text \<open>
  Claim C10. A request whose function field is exactly \<open>find_best_time\<close> gets the
  response \<open>Invalid function\<close> and the store is not touched: the dispatch compares
  with the name followed by a backtick.
\<close>

theorem handler_find_best_time_invalid:
  assumes "ev_function event = Some ''find_best_time''" and "ev_messageVersion event = Some v"
  shows "lambda_handler X d event =
     (Inr \<lparr>resp_actionGroup = (case ev_actionGroup event of None \<Rightarrow> [] | Some a \<Rightarrow> a),
           resp_function = ''find_best_time'', responseBody = Text ''Invalid function'',
           messageVersion = v\<rparr>, d)"
  using assms by (simp add: lambda_handler_def)

theorem handler_find_best_time_invalid_witness:
  "lambda_handler example_extern example_db
     (example_event ''find_best_time'' [(''event_id'', ''e1'')]) =
     (Inr \<lparr>resp_actionGroup = ''scheduler'',
           resp_function = ''find_best_time'', responseBody = Text ''Invalid function'',
           messageVersion = ''1.0''\<rparr>, example_db)"
  using handler_find_best_time_invalid
    [of "example_event ''find_best_time'' [(''event_id'', ''e1'')]" "''1.0''"
        example_extern example_db]
  by (simp add: example_event_def)

section \<open>Finalizing an event\<close>

lemma select_time_no_rows:
  assumes "\<forall>row \<in> set (availabilities d). availEventID row \<noteq> event_id"
  shows "select_time X d event_id = None"
proof -
  from assms have "filter (\<lambda>row. availEventID row = event_id) (availabilities d) = []"
    by (simp add: filter_empty_conv)
  then show ?thesis
    by (simp add: select_time_def select_availabilities_def)
qed

text \<open>
  Claim C6. When no availability window is recorded for the event,
  \<open>find_best_time\<close> returns the error value \<open>Unable to find a suitable time\<close> and
  leaves the store, and with it the confirmed time of the event, as it was.
\<close>

theorem find_best_time_no_availability:
  assumes "\<forall>row \<in> set (availabilities d). availEventID row \<noteq> event_id"
  shows "find_best_time X d event_id = (Error_dict ''Unable to find a suitable time'' None, d)"
  using select_time_no_rows [OF assms] by (simp add: find_best_time_def)

theorem find_best_time_no_availability_witness:
  "find_best_time example_extern example_db ''e2'' =
     (Error_dict ''Unable to find a suitable time'' None, example_db)"
  using find_best_time_no_availability [of example_db "''e2''" example_extern]
  by (simp add: example_db_def)

section \<open>The slots\<close>

lemma width: "timedelta_minutes 30 = 1800000000"
  by (simp add: timedelta_minutes_def)

lemma datetime_add_width:
  "datetime_add c (timedelta_minutes 30) =
     (if 0 \<le> c + 1800000000 \<and> c + 1800000000 \<le> datetime_max
      then Inr (c + 1800000000) else Inl OverflowError)"
  by (simp add: datetime_add_def is_datetime_def width)

lemma slots_loop_eq:
  "slots_loop c e acc =
     (if nat (- ((c - e) div 1800000000)) = 0
         \<or> (0 \<le> c + 1800000000
             \<and> c + int (nat (- ((c - e) div 1800000000))) * 1800000000 \<le> datetime_max)
      then Inr (acc @ map (\<lambda>k. (c + int k * 1800000000, c + (int k + 1) * 1800000000))
                         [0..<nat (- ((c - e) div 1800000000))])
      else Inl OverflowError)"
proof (induction c e acc rule: slots_loop.induct)
  case (1 c e acc)
  show ?case
  proof (cases "c < e")
    case False
    then have "0 \<le> (c - e) div 1800000000"
      by (simp add: pos_imp_zdiv_nonneg_iff)
    then have "nat (- ((c - e) div 1800000000)) = 0" by simp
    moreover have "slots_loop c e acc = Inr acc"
      using False by (subst slots_loop.simps) simp
    ultimately show ?thesis by simp
  next
    case True
    define m where "m = nat (- ((c + 1800000000 - e) div 1800000000))"
    have d: "(c + 1800000000 - e) div 1800000000 = (c - e) div 1800000000 + 1"
      by (simp add: algebra_simps div_add_self2)
    have nonneg: "(c + 1800000000 - e) div 1800000000 \<le> 0"
      using True zdiv_mono1 [of "c + 1800000000 - e" "1800000000 - 1" 1800000000] by simp
    have n: "nat (- ((c - e) div 1800000000)) = Suc m"
      using d nonneg by (simp add: m_def)
    show ?thesis
    proof (cases "0 \<le> c + 1800000000 \<and> c + 1800000000 \<le> datetime_max")
      case False
      have fails: "datetime_add c (timedelta_minutes 30) = Inl OverflowError"
        using False by (simp only: datetime_add_width if_False)
      have "slots_loop c e acc = Inl OverflowError"
        using True fails by (subst slots_loop.simps) simp
      moreover have "\<not> (0 \<le> c + 1800000000 \<and> c + int (Suc m) * 1800000000 \<le> datetime_max)"
        using False by auto
      ultimately show ?thesis unfolding n by simp
    next
      case ok: True
      have step: "datetime_add c (timedelta_minutes 30) = Inr (c + 1800000000)"
        using ok by (simp add: datetime_add_width)
      have "slots_loop c e acc =
              slots_loop (c + 1800000000) e (acc @ [(c, c + 1800000000)])"
        using True step by (subst slots_loop.simps) simp
      also have "\<dots> =
         (if m = 0 \<or> (0 \<le> c + 1800000000 + 1800000000
                       \<and> c + 1800000000 + int m * 1800000000 \<le> datetime_max)
          then Inr ((acc @ [(c, c + 1800000000)]) @
                 map (\<lambda>k. (c + 1800000000 + int k * 1800000000,
                           c + 1800000000 + (int k + 1) * 1800000000)) [0..<m])
          else Inl OverflowError)"
        using "1.IH" [OF True step] by (simp only: m_def)
      also have "\<dots> =
         (if 0 \<le> c + 1800000000 \<and> c + int (Suc m) * 1800000000 \<le> datetime_max
          then Inr (acc @ map (\<lambda>k. (c + int k * 1800000000, c + (int k + 1) * 1800000000))
                         [0..<Suc m])
          else Inl OverflowError)"
      proof -
        have cond: "(m = 0 \<or> (0 \<le> c + 1800000000 + 1800000000
                       \<and> c + 1800000000 + int m * 1800000000 \<le> datetime_max))
              \<longleftrightarrow> (0 \<le> c + 1800000000 \<and> c + int (Suc m) * 1800000000 \<le> datetime_max)"
          using ok by (cases "m = 0") auto
        have lists: "(acc @ [(c, c + 1800000000)]) @
                 map (\<lambda>k. (c + 1800000000 + int k * 1800000000,
                           c + 1800000000 + (int k + 1) * 1800000000)) [0..<m]
              = acc @ map (\<lambda>k. (c + int k * 1800000000, c + (int k + 1) * 1800000000))
                         [0..<Suc m]"
          by (simp add: map_upt_Suc algebra_simps del: upt_Suc)
        show ?thesis by (simp only: cond lists)
      qed
      finally show ?thesis unfolding n by simp
    qed
  qed
qed

lemma py_min_Min: "xs \<noteq> [] \<Longrightarrow> py_min xs = Inr (Min (set xs))"
  by (cases xs) (simp_all add: Min.set_eq_fold [symmetric])

lemma py_max_Max: "xs \<noteq> [] \<Longrightarrow> py_max xs = Inr (Max (set xs))"
  by (cases xs) (simp_all add: Max.set_eq_fold [symmetric])

lemma spec_slot_count_div:
  "spec_slot_count avs = nat (- ((spec_globalStart avs - spec_globalEnd avs) div 1800000000))"
proof -
  have "\<lceil>real_of_int (spec_globalEnd avs - spec_globalStart avs) / real_of_int 1800000000\<rceil>
          = - (- (spec_globalEnd avs - spec_globalStart avs) div 1800000000)"
    by (rule ceiling_divide_eq_div)
  then show ?thesis
    by (simp only: spec_slot_count_def width minus_diff_eq)
qed

text \<open>
  What \<open>all_slots\<close> returns on a non-empty list: the slots of the specification, or
  OverflowError when an addition leaves the range of the datetimes.
\<close>

lemma all_slots_exact:
  assumes "avs \<noteq> []"
  shows "all_slots avs =
     (if spec_slot_count avs = 0
         \<or> (0 \<le> spec_globalStart avs + 1800000000
             \<and> spec_globalStart avs + int (spec_slot_count avs) * 1800000000 \<le> datetime_max)
      then Inr (map (spec_slot avs) [0..<spec_slot_count avs])
      else Inl OverflowError)"
proof -
  have "py_min (map startTime avs) = Inr (spec_globalStart avs)"
    using assms by (simp add: py_min_Min spec_globalStart_def)
  moreover have "py_max (map endTime avs) = Inr (spec_globalEnd avs)"
    using assms by (simp add: py_max_Max spec_globalEnd_def)
  moreover have "spec_slot avs = (\<lambda>k. (spec_globalStart avs + int k * 1800000000,
                        spec_globalStart avs + (int k + 1) * 1800000000))"
    by (rule ext) (simp add: spec_slot_def width)
  ultimately show ?thesis
    by (simp add: all_slots_def slots_loop_eq spec_slot_count_div)
qed

lemma all_slots_Nil: "all_slots [] = Inl ValueError"
  by (simp add: all_slots_def)

lemma all_slots_Inr:
  assumes "all_slots avs = Inr slots"
  shows "avs \<noteq> [] \<and> slots = map (spec_slot avs) [0..<spec_slot_count avs]"
proof -
  from assms have ne: "avs \<noteq> []" by (auto simp: all_slots_Nil)
  with assms all_slots_exact [OF ne] show ?thesis
    by (simp split: if_splits)
qed

lemma spec_slots_increasing:
  "i < j \<Longrightarrow> fst (spec_slot avs i) < fst (spec_slot avs j)"
  by (simp add: spec_slot_def width)

lemma last_slot_reaches_end:
  assumes "0 < spec_slot_count avs"
  shows "spec_globalEnd avs \<le> snd (spec_slot avs (spec_slot_count avs - 1))
       \<and> snd (spec_slot avs (spec_slot_count avs - 1))
           < spec_globalEnd avs + timedelta_minutes 30"
proof -
  let ?x = "spec_globalStart avs - spec_globalEnd avs"
  let ?q = "?x div 1800000000"
  have q: "?q < 0" using assms by (simp add: spec_slot_count_div)
  have "int (spec_slot_count avs) = - ?q"
    using q by (simp add: spec_slot_count_div)
  moreover have "int (spec_slot_count avs - 1) + 1 = int (spec_slot_count avs)"
    using assms by simp
  ultimately have s: "snd (spec_slot avs (spec_slot_count avs - 1))
                        = spec_globalStart avs + (- ?q) * 1800000000"
    by (simp only: spec_slot_def width snd_conv)
  have "?x = ?q * 1800000000 + ?x mod 1800000000" by simp
  moreover have "0 \<le> ?x mod 1800000000" "?x mod 1800000000 < 1800000000" by simp_all
  ultimately show ?thesis unfolding s width by linarith
qed

lemma spec_ex:
  "spec_globalStart example_windows = 63839696400000000"
  "spec_globalEnd example_windows = 63839701800000000"
  by (simp_all add: spec_globalStart_def spec_globalEnd_def example_windows_def)

lemma spec_count_ex: "spec_slot_count example_windows = 3"
  by (simp add: spec_slot_count_div spec_ex)

lemma spec_globalStart_datetime:
  assumes "avs \<noteq> []" and "\<forall>w \<in> set avs. is_datetime (startTime w) \<and> is_datetime (endTime w)"
  shows "0 \<le> spec_globalStart avs"
proof -
  have "Min (startTime ` set avs) \<in> startTime ` set avs"
    using assms(1) by (intro Min_in) auto
  with assms(2) show ?thesis
    by (auto simp: spec_globalStart_def is_datetime_def)
qed

lemma last_hour_ex:
  "spec_globalStart last_hour_window = 315537894000000000"
  "spec_globalEnd last_hour_window = 315537897540000000"
  by (simp_all add: spec_globalStart_def spec_globalEnd_def last_hour_window_def)

lemma last_hour_count: "spec_slot_count last_hour_window = 2"
  by (simp add: spec_slot_count_div last_hour_ex)

lemma last_hour_fromiso:
  "fromisoformat_seconds ''9999-12-31T23:00:00'' = Inr 315537894000000000"
  "fromisoformat_seconds ''9999-12-31T23:59:00'' = Inr 315537897540000000"
proof -
  have d: "datetime_of 9999 12 31 23 0 0 = 315537894000000000"
    "datetime_of 9999 12 31 23 59 0 = 315537897540000000"
    by (simp_all add: datetime_of_def ymd2ord_def days_before_year_def days_before_month_def
          is_leap_def)
  show "fromisoformat_seconds ''9999-12-31T23:00:00'' = Inr 315537894000000000"
    by (simp add: fromisoformat_seconds_def iso_regex_def digits_def py_int_def
          days_in_month_def is_leap_def d)
  show "fromisoformat_seconds ''9999-12-31T23:59:00'' = Inr 315537897540000000"
    by (simp add: fromisoformat_seconds_def iso_regex_def digits_def py_int_def
          days_in_month_def is_leap_def d)
qed

text \<open>The two instants of that window, as the library prints them.\<close>

lemma last_hour_texts:
  "isoformat 315537894000000000 = ''9999-12-31T23:00:00''"
  "isoformat 315537897540000000 = ''9999-12-31T23:59:00''"
proof -
  have ymd: "ord2ymd 3652059 = (9999, 12, 31)"
    by (simp add: ord2ymd_def Let_def days_before_month_def)
  have z: "zfill4 9999 = ''9999''" "zfill2 12 = ''12''" "zfill2 31 = ''31''"
    "zfill2 23 = ''23''" "zfill2 59 = ''59''" "zfill2 0 = ''00''"
    by (simp_all add: zfill4_def zfill2_def digit_char_def)
  show "isoformat 315537894000000000 = ''9999-12-31T23:00:00''"
    by (simp add: isoformat_def ymd z)
  show "isoformat 315537897540000000 = ''9999-12-31T23:59:00''"
    by (simp add: isoformat_def ymd z)
qed

text \<open>
  Claim C5, as stated, fails: for the single window 9999-12-31 23:00 to 23:59 the
  specification counts two slots, and the code builds none: the second slot would
  end after the last datetime, the addition raises OverflowError.
\<close>

theorem all_slots_overflow:
  "last_hour_window \<noteq> []
   \<and> spec_slot_count last_hour_window = 2
   \<and> all_slots last_hour_window = Inl OverflowError
   \<and> select_time example_extern last_hour_db ''e1'' = None"
proof -
  have ne: "last_hour_window \<noteq> []" by (simp add: last_hour_window_def)
  have slots: "all_slots last_hour_window = Inl OverflowError"
    using all_slots_exact [OF ne] by (simp add: last_hour_count last_hour_ex datetime_max_def)
  have "convert_times example_extern (availabilities last_hour_db) = Inr last_hour_window"
    by (simp add: last_hour_db_def example_extern_def last_hour_window_def last_hour_fromiso)
  then have "select_time example_extern last_hour_db ''e1'' = None"
    by (simp add: select_time_def select_availabilities_def last_hour_db_def example_db_def
          best_slot_def slots)
  with ne slots show ?thesis by (simp add: last_hour_count)
qed

text \<open>
  Claim C5, amended. For every non-empty list of windows (of datetimes), when the
  end of the last slot, \<open>globalStart + ceil((globalEnd - globalStart) / W) W\<close>, is
  not after the last datetime, the slots the code generates are the slots of the
  specification: slot \<open>k\<close> is \<open>[globalStart + k W, globalStart + (k + 1) W)\<close> for \<open>k\<close>
  below \<open>ceil((globalEnd - globalStart) / W)\<close>, with \<open>globalStart\<close> the least start,
  \<open>globalEnd\<close> the greatest end and \<open>W\<close> 30 minutes; otherwise the code raises
  OverflowError. The slots are in chronological order, and the last slot ends at or
  after \<open>globalEnd\<close>, less than one width after it. (When \<open>globalEnd\<close> is not
  after \<open>globalStart\<close> the count is 0.)
\<close>

theorem all_slots_as_specified:
  assumes "avs \<noteq> []"
    and "\<forall>w \<in> set avs. is_datetime (startTime w) \<and> is_datetime (endTime w)"
  shows "all_slots avs =
           (if spec_globalStart avs + int (spec_slot_count avs) * timedelta_minutes 30
                 \<le> datetime_max
            then Inr (map (spec_slot avs) [0..<spec_slot_count avs])
            else Inl OverflowError)
       \<and> sorted_wrt (\<lambda>s t. fst s < fst t) (map (spec_slot avs) [0..<spec_slot_count avs])
       \<and> (0 < spec_slot_count avs \<longrightarrow>
            spec_globalEnd avs \<le> snd (spec_slot avs (spec_slot_count avs - 1))
            \<and> snd (spec_slot avs (spec_slot_count avs - 1))
                < spec_globalEnd avs + timedelta_minutes 30)"
proof (intro conjI impI)
  have start: "0 \<le> spec_globalStart avs"
    by (rule spec_globalStart_datetime [OF assms])
  have "Min (startTime ` set avs) \<in> startTime ` set avs"
    using assms(1) by (intro Min_in) auto
  with assms(2) have le: "spec_globalStart avs \<le> datetime_max"
    by (auto simp: spec_globalStart_def is_datetime_def)
  show "all_slots avs =
           (if spec_globalStart avs + int (spec_slot_count avs) * timedelta_minutes 30
                 \<le> datetime_max
            then Inr (map (spec_slot avs) [0..<spec_slot_count avs])
            else Inl OverflowError)"
    using all_slots_exact [OF assms(1)] start le by (auto simp: width)
  show "sorted_wrt (\<lambda>s t. fst s < fst t) (map (spec_slot avs) [0..<spec_slot_count avs])"
    by (simp add: sorted_wrt_iff_nth_less spec_slots_increasing)
next
  assume "0 < spec_slot_count avs"
  then show "spec_globalEnd avs \<le> snd (spec_slot avs (spec_slot_count avs - 1))"
    and "snd (spec_slot avs (spec_slot_count avs - 1))
           < spec_globalEnd avs + timedelta_minutes 30"
    using last_slot_reaches_end by simp_all
qed

theorem all_slots_as_specified_witness:
  "example_windows \<noteq> []
   \<and> (\<forall>w \<in> set example_windows. is_datetime (startTime w) \<and> is_datetime (endTime w)) = True
   \<and> all_slots example_windows =
       Inr [(63839696400000000, 63839698200000000), (63839698200000000, 63839700000000000),
            (63839700000000000, 63839701800000000)]
   \<and> spec_slot_count example_windows = 3
   \<and> spec_globalEnd example_windows \<le> snd (spec_slot example_windows 2)"
proof -
  have ne: "example_windows \<noteq> []" by (simp add: example_windows_def)
  have dt: "\<forall>w \<in> set example_windows. is_datetime (startTime w) \<and> is_datetime (endTime w)"
    by (simp add: example_windows_def is_datetime_def datetime_max_def)
  have up: "[0..<3] = [0, 1, 2]" by (simp add: upt_rec)
  from all_slots_as_specified [OF ne dt] ne dt show ?thesis
    by (simp add: spec_count_ex up spec_slot_def spec_ex width datetime_max_def)
qed

section \<open>Coverage\<close>

lemma coverage_count:
  "coverage avs slot =
     length (filter (\<lambda>avail. startTime avail \<le> fst slot \<and> snd slot \<le> endTime avail) avs)"
  by (simp add: coverage_def sum_list_triv)

text \<open>
  Claim C4. For every slot and every list of windows, the coverage count of the
  slot is the number of windows that contain it whole (window start at or before
  the slot start, window end at or after the slot end); any other window, in
  particular one that overlaps the slot only in part, adds nothing to the count.
\<close>

theorem coverage_full_containment:
  "coverage avs slot =
     length (filter (\<lambda>w. startTime w \<le> fst slot \<and> endTime w \<ge> snd slot) avs)
   \<and> coverage (before @ [w] @ after) slot =
       coverage (before @ after) slot
         + (if startTime w \<le> fst slot \<and> endTime w \<ge> snd slot then 1 else 0)"
  by (simp add: coverage_count)

text \<open>
  The window 09:00 to 10:00 is counted for the slots that start at 09:00 and 09:30,
  not for those that start at 08:30 and 09:45.
\<close>

theorem coverage_full_containment_witness:
  "coverage [\<lparr>userID = ''A'', availEventID = ''e1'',
              startTime = 63839696400000000, endTime = 63839700000000000\<rparr>]
            (63839696400000000, 63839698200000000) = 1
   \<and> coverage [\<lparr>userID = ''A'', availEventID = ''e1'',
              startTime = 63839696400000000, endTime = 63839700000000000\<rparr>]
            (63839698200000000, 63839700000000000) = 1
   \<and> coverage [\<lparr>userID = ''A'', availEventID = ''e1'',
              startTime = 63839696400000000, endTime = 63839700000000000\<rparr>]
            (63839694600000000, 63839696400000000) = 0
   \<and> coverage [\<lparr>userID = ''A'', availEventID = ''e1'',
              startTime = 63839696400000000, endTime = 63839700000000000\<rparr>]
            (63839699100000000, 63839700900000000) = 0"
  using coverage_full_containment
    [of "[]" _ "[]" "\<lparr>userID = ''A'', availEventID = ''e1'',
              startTime = 63839696400000000, endTime = 63839700000000000\<rparr>" "[]"]
  by (simp add: coverage_def)

section \<open>The best slot\<close>

text \<open>The scan of \<open>max\<close> returns the first position with the greatest key.\<close>

lemma fold_max_key:
  fixes f :: "'a \<Rightarrow> nat"
  shows "\<exists>r. fold (\<lambda>y best. if f y > f best then y else best) xs b = r \<and>
     ((r = b \<and> (\<forall>y \<in> set xs. f y \<le> f b)) \<or>
      (\<exists>i<length xs. r = xs ! i \<and> f b < f r \<and> (\<forall>j<i. f (xs ! j) < f r)
          \<and> (\<forall>j<length xs. f (xs ! j) \<le> f r)))"
proof (induction xs arbitrary: b)
  case Nil
  then show ?case by simp
next
  case (Cons y ys)
  let ?g = "\<lambda>y best. if f y > f best then y else best"
  show ?case
  proof (cases "f y > f b")
    case True
    from Cons.IH [of y] consider
      (keep) "fold ?g ys y = y" "\<forall>z \<in> set ys. f z \<le> f y"
    | (later) i where "i < length ys" "fold ?g ys y = ys ! i" "f y < f (ys ! i)"
        "\<forall>j<i. f (ys ! j) < f (ys ! i)" "\<forall>j<length ys. f (ys ! j) \<le> f (ys ! i)"
      by auto
    then show ?thesis
    proof cases
      case keep
      have "\<forall>j<length (y # ys). f ((y # ys) ! j) \<le> f y"
        using keep(2) by (auto simp: nth_Cons split: nat.splits)
      with True keep show ?thesis
        by (intro exI conjI disjI2 exI [of _ 0]) auto
    next
      case later
      have a: "\<forall>j<Suc i. f ((y # ys) ! j) < f (ys ! i)"
        using later(3,4) by (auto simp: nth_Cons split: nat.splits)
      have b: "\<forall>j<length (y # ys). f ((y # ys) ! j) \<le> f (ys ! i)"
        using later(3,5) by (auto simp: nth_Cons split: nat.splits)
      from True later(1,2,3) a b show ?thesis
        by (intro exI conjI disjI2 exI [of _ "Suc i"]) auto
    qed
  next
    case False
    from Cons.IH [of b] consider
      (keep) "fold ?g ys b = b" "\<forall>z \<in> set ys. f z \<le> f b"
    | (later) i where "i < length ys" "fold ?g ys b = ys ! i" "f b < f (ys ! i)"
        "\<forall>j<i. f (ys ! j) < f (ys ! i)" "\<forall>j<length ys. f (ys ! j) \<le> f (ys ! i)"
      by auto
    then show ?thesis
    proof cases
      case keep
      with False show ?thesis by auto
    next
      case later
      have a: "\<forall>j<Suc i. f ((y # ys) ! j) < f (ys ! i)"
        using later(3,4) False by (auto simp: nth_Cons split: nat.splits)
      have b: "\<forall>j<length (y # ys). f ((y # ys) ! j) \<le> f (ys ! i)"
        using later(3,5) False by (auto simp: nth_Cons split: nat.splits)
      from False later(1,2,3) a b show ?thesis
        by (intro exI conjI disjI2 exI [of _ "Suc i"]) auto
    qed
  qed
qed

lemma py_max_key_first:
  fixes f :: "'a \<Rightarrow> nat"
  assumes "xs \<noteq> []"
  shows "\<exists>i<length xs. py_max_key f xs = Inr (xs ! i)
           \<and> (\<forall>j<length xs. f (xs ! j) \<le> f (xs ! i))
           \<and> (\<forall>j<i. f (xs ! j) < f (xs ! i))"
proof -
  from assms obtain x ys where xs: "xs = x # ys" by (cases xs) auto
  let ?g = "\<lambda>y best. if f y > f best then y else best"
  from fold_max_key [of f ys x] consider
      (keep) "fold ?g ys x = x" "\<forall>z \<in> set ys. f z \<le> f x"
    | (later) i where "i < length ys" "fold ?g ys x = ys ! i" "f x < f (ys ! i)"
        "\<forall>j<i. f (ys ! j) < f (ys ! i)" "\<forall>j<length ys. f (ys ! j) \<le> f (ys ! i)"
    by auto
  then show ?thesis
  proof cases
    case keep
    have "\<forall>j<length xs. f (xs ! j) \<le> f x"
      using keep(2) xs by (auto simp: nth_Cons split: nat.splits)
    with keep xs show ?thesis
      by (intro exI [of _ 0]) auto
  next
    case later
    have a: "\<forall>j<Suc i. f (xs ! j) < f (ys ! i)"
      using later(3,4) xs by (auto simp: nth_Cons split: nat.splits)
    have b: "\<forall>j<length xs. f (xs ! j) \<le> f (ys ! i)"
      using later(3,5) xs by (auto simp: nth_Cons split: nat.splits)
    from later(1,2) a b xs show ?thesis
      by (intro exI [of _ "Suc i"]) auto
  qed
qed

text \<open>The slots and the counts depend on the windows as a multiset only.\<close>

lemma all_slots_perm:
  assumes "mset avs' = mset avs"
  shows "all_slots avs' = all_slots avs"
proof (cases "avs = []")
  case True
  with assms show ?thesis by simp
next
  case False
  with assms have ne: "avs' \<noteq> []" by auto
  from assms have sets: "set avs' = set avs" by (rule mset_eq_setD)
  have starts: "py_min (map startTime avs') = py_min (map startTime avs)"
    using False ne sets by (simp add: py_min_Min)
  have ends: "py_max (map endTime avs') = py_max (map endTime avs)"
    using False ne sets by (simp add: py_max_Max)
  show ?thesis
    unfolding all_slots_def starts ends by (rule refl)
qed

lemma coverage_perm:
  assumes "mset avs' = mset avs"
  shows "coverage avs' slot = coverage avs slot"
proof -
  let ?P = "\<lambda>avail. startTime avail \<le> fst slot \<and> snd slot \<le> endTime avail"
  have "mset (filter ?P avs') = mset (filter ?P avs)"
    using assms by (simp only: mset_filter)
  then have "length (filter ?P avs') = length (filter ?P avs)"
    by (rule mset_eq_length)
  then show ?thesis by (simp only: coverage_count)
qed

text \<open>
  Claim C2. Whenever there is a slot at all, the best slot is a slot of greatest
  coverage count, and every other slot with the same count starts later: among
  ties the chronologically earliest wins. The same slot is selected for every
  reordering of the list of windows.
\<close>

theorem best_slot_earliest_maximum:
  assumes "all_slots avs = Inr slots" and "slots \<noteq> []" and "mset avs' = mset avs"
  shows "\<exists>i<length slots.
           best_slot avs = Inr (slots ! i) \<and> best_slot avs' = Inr (slots ! i)
         \<and> (\<forall>j<length slots. coverage avs (slots ! j) \<le> coverage avs (slots ! i))
         \<and> (\<forall>j<length slots. j \<noteq> i \<and> coverage avs (slots ! j) = coverage avs (slots ! i)
               \<longrightarrow> fst (slots ! i) < fst (slots ! j))"
proof -
  have slots: "slots = map (spec_slot avs) [0..<spec_slot_count avs]"
    using all_slots_Inr [OF assms(1)] by simp
  from py_max_key_first [OF assms(2), of "coverage avs"] obtain i where
    i: "i < length slots" "py_max_key (coverage avs) slots = Inr (slots ! i)"
       "\<forall>j<length slots. coverage avs (slots ! j) \<le> coverage avs (slots ! i)"
       "\<forall>j<i. coverage avs (slots ! j) < coverage avs (slots ! i)"
    by blast
  have same: "coverage avs' = coverage avs"
    using coverage_perm [OF assms(3)] by (simp add: fun_eq_iff)
  have b: "best_slot avs = Inr (slots ! i)"
    using assms(1) i(2) by (simp add: best_slot_def)
  have b': "best_slot avs' = Inr (slots ! i)"
    using assms(1) i(2) all_slots_perm [OF assms(3)] same by (simp add: best_slot_def)
  have ties: "fst (slots ! i) < fst (slots ! j)"
    if "j < length slots" "j \<noteq> i" "coverage avs (slots ! j) = coverage avs (slots ! i)" for j
  proof -
    from that i(4) have "i < j" by (metis less_irrefl linorder_neqE_nat)
    with that(1) show ?thesis
      by (simp add: slots spec_slots_increasing)
  qed
  from i(1,3) b b' ties show ?thesis by blast
qed

text \<open>\<open>select_time\<close> returns the start of the best slot as text.\<close>

lemma select_time_best_slot:
  assumes "store_up d"
    and "filter (\<lambda>row. availEventID row = event_id) (availabilities d) = rows"
    and "rows \<noteq> []"
    and "convert_times X rows = Inr avs"
    and "best_slot avs = Inr b"
  shows "select_time X d event_id = Some (isoformat (fst b))"
  using assms by (simp add: select_time_def select_availabilities_def)

subsection \<open>The example: two slots tie, the earlier one is taken\<close>

lemma convert_ex:
  "convert_times example_extern (availabilities example_db) = Inr example_windows"
  by (simp add: example_db_def example_extern_def example_windows_def fromiso_ex)

lemma all_slots_ex:
  "all_slots example_windows =
     Inr [(63839696400000000, 63839698200000000), (63839698200000000, 63839700000000000),
          (63839700000000000, 63839701800000000)]"
  by (simp add: all_slots_def example_windows_def timedelta_minutes_def slots_loop.simps
        datetime_add_def is_datetime_def datetime_max_def)

lemma best_slot_ex:
  "best_slot example_windows = Inr (63839696400000000, 63839698200000000)"
  unfolding best_slot_def all_slots_ex
  by (simp add: coverage_def example_windows_def)

lemma coverage_ex:
  "coverage example_windows (63839696400000000, 63839698200000000) = 2"
  "coverage example_windows (63839698200000000, 63839700000000000) = 2"
  "coverage example_windows (63839700000000000, 63839701800000000) = 1"
  by (simp_all add: coverage_def example_windows_def)

theorem best_slot_earliest_maximum_witness:
  "best_slot example_windows = Inr (63839696400000000, 63839698200000000)
   \<and> best_slot (rev example_windows) = Inr (63839696400000000, 63839698200000000)
   \<and> coverage example_windows (63839696400000000, 63839698200000000) = 2
   \<and> coverage example_windows (63839698200000000, 63839700000000000) = 2"
proof -
  have "mset (rev example_windows) = mset example_windows" by simp
  from best_slot_earliest_maximum [OF all_slots_ex _ this] obtain i where
    "best_slot example_windows =
       Inr ([(63839696400000000, 63839698200000000), (63839698200000000, 63839700000000000),
            (63839700000000000, 63839701800000000)] ! i)"
    "best_slot (rev example_windows) =
       Inr ([(63839696400000000, 63839698200000000), (63839698200000000, 63839700000000000),
            (63839700000000000, 63839701800000000)] ! i)"
    by auto
  with best_slot_ex coverage_ex show ?thesis by simp
qed

section \<open>Writing the confirmed time\<close>

lemma select_time_ex:
  "select_time example_extern (example_db\<lparr>events := evs\<rparr>) ''e1'' = Some ''2024-01-01T09:00:00''"
proof -
  have "filter (\<lambda>row. availEventID row = ''e1'') (availabilities example_db) = availabilities example_db"
    by (simp add: example_db_def)
  moreover have "availabilities example_db \<noteq> []" "store_up example_db"
    by (simp_all add: example_db_def)
  ultimately show ?thesis
    by (simp add: select_time_def select_availabilities_def convert_ex best_slot_ex isoformat_ex)
qed

lemma find_best_time_ex:
  "find_best_time example_extern (example_db\<lparr>events := evs\<rparr>) ''e1'' =
     (Message_dict ''Event time updated successfully'',
      example_db\<lparr>events := map (\<lambda>row. if eventID row = ''e1''
                              then row\<lparr>confirmedTime := Some ''2024-01-01T09:00:00''\<rparr> else row) evs\<rparr>)"
  unfolding find_best_time_def select_time_ex
  by (simp add: truthy_def update_event_time_def update_confirmedTime_def example_db_def)

lemma select_time_events:
  "select_time X (d\<lparr>events := evs\<rparr>) event_id = select_time X d event_id"
  by (simp add: select_time_def select_availabilities_def)

lemma update_event_time_result:
  "update_event_time d event_id t =
     (if store_up d
      then (Message_dict ''Event time updated successfully'',
            d\<lparr>events := map (\<lambda>row. if eventID row = event_id
                                     then row\<lparr>confirmedTime := Some t\<rparr> else row) (events d)\<rparr>)
      else (Error_dict [] (Some StoreError), d))"
  by (simp add: update_event_time_def update_confirmedTime_def)

lemma update_event_time_twice:
  "update_event_time (snd (update_event_time d event_id t)) event_id t = update_event_time d event_id t"
  by (simp add: update_event_time_result comp_def cong: map_cong)

text \<open>
  Claim C3, amended. The update of the confirmed time is unconditional: whenever
  the store answers, \<open>update_event_time\<close> sets the confirmed time of the event to the
  given time, present or not, and reports success. A second \<open>find_best_time\<close> on
  unchanged availability computes the same time and writes it again: it returns
  what the first call returned and leaves the store as the first call left it.
\<close>

theorem find_best_time_repeated:
  "find_best_time X (snd (find_best_time X d event_id)) event_id = find_best_time X d event_id
   \<and> (store_up d \<longrightarrow>
        update_event_time d event_id t =
          (Message_dict ''Event time updated successfully'',
           d\<lparr>events := map (\<lambda>row. if eventID row = event_id
                                    then row\<lparr>confirmedTime := Some t\<rparr> else row) (events d)\<rparr>))"
proof
  show "find_best_time X (snd (find_best_time X d event_id)) event_id = find_best_time X d event_id"
  proof (cases "select_time X d event_id")
    case None
    then show ?thesis by (simp add: find_best_time_def)
  next
    case (Some best_time)
    show ?thesis
    proof (cases "truthy best_time")
      case False
      with Some show ?thesis by (simp add: find_best_time_def)
    next
      case True
      have "select_time X (snd (update_event_time d event_id best_time)) event_id
              = select_time X d event_id"
        by (simp add: update_event_time_result select_time_events)
      with Some True show ?thesis
        by (simp add: find_best_time_def update_event_time_twice)
    qed
  qed
next
  show "store_up d \<longrightarrow>
        update_event_time d event_id t =
          (Message_dict ''Event time updated successfully'',
           d\<lparr>events := map (\<lambda>row. if eventID row = event_id
                                    then row\<lparr>confirmedTime := Some t\<rparr> else row) (events d)\<rparr>)"
    by (simp add: update_event_time_result)
qed

theorem find_best_time_repeated_witness:
  "store_up example_db
   \<and> find_best_time example_extern (snd (find_best_time example_extern example_db ''e1'')) ''e1'' =
       (Message_dict ''Event time updated successfully'', example_db_confirmed ''2024-01-01T09:00:00'')
   \<and> update_event_time (example_db_confirmed ''2024-01-02T15:00:00'') ''e1'' ''2024-01-01T09:00:00'' =
       (Message_dict ''Event time updated successfully'', example_db_confirmed ''2024-01-01T09:00:00'')"
proof -
  have up: "store_up example_db" "store_up (example_db_confirmed ''2024-01-02T15:00:00'')"
    by (simp_all add: example_db_def example_db_confirmed_def)
  have first: "find_best_time example_extern example_db ''e1'' =
       (Message_dict ''Event time updated successfully'', example_db_confirmed ''2024-01-01T09:00:00'')"
    using find_best_time_ex [of "events example_db"]
    by (simp add: example_db_def example_db_confirmed_def)
  from find_best_time_repeated [of example_extern example_db "''e1''"] first
  have "find_best_time example_extern (snd (find_best_time example_extern example_db ''e1'')) ''e1'' =
       (Message_dict ''Event time updated successfully'', example_db_confirmed ''2024-01-01T09:00:00'')"
    by simp
  moreover from find_best_time_repeated
      [of example_extern "example_db_confirmed ''2024-01-02T15:00:00''" "''e1''" "''2024-01-01T09:00:00''"] up(2)
  have "update_event_time (example_db_confirmed ''2024-01-02T15:00:00'') ''e1'' ''2024-01-01T09:00:00'' =
       (Message_dict ''Event time updated successfully'', example_db_confirmed ''2024-01-01T09:00:00'')"
    by (simp add: example_db_def example_db_confirmed_def)
  ultimately show ?thesis using up(1) by simp
qed

text \<open>
  Claim C3, as stated, fails: on an event already confirmed at another time the
  update succeeds and replaces that time, and on an event already confirmed at the
  computed time the answer is again that the time was updated, not that the event
  was already confirmed.
\<close>

theorem confirmed_time_overwritten:
  "confirmedTime (hd (events (example_db_confirmed ''2024-01-02T15:00:00''))) = Some ''2024-01-02T15:00:00''
   \<and> find_best_time example_extern (example_db_confirmed ''2024-01-02T15:00:00'') ''e1'' =
       (Message_dict ''Event time updated successfully'', example_db_confirmed ''2024-01-01T09:00:00'')
   \<and> find_best_time example_extern (example_db_confirmed ''2024-01-01T09:00:00'') ''e1'' =
       (Message_dict ''Event time updated successfully'', example_db_confirmed ''2024-01-01T09:00:00'')"
  using find_best_time_ex [of "events (example_db_confirmed ''2024-01-02T15:00:00'')"]
    find_best_time_ex [of "events (example_db_confirmed ''2024-01-01T09:00:00'')"]
  by (simp add: example_db_def example_db_confirmed_def)

text \<open>
  Under the name with the backtick the handler does reach \<open>find_best_time\<close>: on the
  example store it confirms 09:00, the earlier of the two slots that tie.
\<close>

lemma handler_backtick_finalizes:
  "lambda_handler example_extern example_db
     (example_event ''find_best_time`'' [(''event_id'', ''e1'')]) =
     (Inr \<lparr>resp_actionGroup = ''scheduler'', resp_function = ''find_best_time`'',
           responseBody = Dumps (Message_dict ''Event time updated successfully''),
           messageVersion = ''1.0''\<rparr>,
      example_db_confirmed ''2024-01-01T09:00:00'')"
proof -
  have "find_best_time example_extern example_db ''e1'' =
       (Message_dict ''Event time updated successfully'',
        example_db_confirmed ''2024-01-01T09:00:00'')"
    using find_best_time_ex [of "events example_db"]
    by (simp add: example_db_def example_db_confirmed_def)
  then show ?thesis
    by (simp add: lambda_handler_def example_event_def find_best_time_branch_def
          get_named_parameter_def truthy_def json_dumps_def)
qed

end
